theory Spec2Isabelle
  imports Main
begin

section \<open>Characters and regular-expression classes\<close>

text \<open>
  The source is TypeScript. Strings are modelled as \<open>string\<close>; the character classes of
  the regular expressions in \<^verbatim>\<open>bcrypt.service.ts\<close> and in the JWT service are written
  out as the sets of characters they denote.
\<close>

definition is_digit :: "char \<Rightarrow> bool" where
  "is_digit c \<longleftrightarrow> c \<in> set ''0123456789''"

definition is_lower :: "char \<Rightarrow> bool" where
  "is_lower c \<longleftrightarrow> c \<in> set ''abcdefghijklmnopqrstuvwxyz''"

definition is_upper :: "char \<Rightarrow> bool" where
  "is_upper c \<longleftrightarrow> c \<in> set ''ABCDEFGHIJKLMNOPQRSTUVWXYZ''"

definition is_special :: "char \<Rightarrow> bool" where
  "is_special c \<longleftrightarrow> c \<in> set ''@$!%*?&''"

definition is_unit :: "char \<Rightarrow> bool" where
  "is_unit c \<longleftrightarrow> c \<in> set ''dhms''"

text \<open>The characters that \<^verbatim>\<open>.\<close> does not match: line feed and carriage return.\<close>

definition line_terminator :: "char \<Rightarrow> bool" where
  "line_terminator c \<longleftrightarrow> c = CHR 0x0A \<or> c = CHR 0x0D"

section \<open>Duration parsing: \<^verbatim>\<open>JWTService.getExpirySeconds\<close>\<close>

text \<open>
  \<^verbatim>\<open>timeStr.match(/(\d+)([dhms])/)\<close>: the leftmost match of a run of digits followed by
  one unit letter. At a given start the greedy \<^verbatim>\<open>\d+\<close> takes the whole run of digits;
  giving back digits cannot help, since the character after a shorter run is a digit and
  not a unit letter. \<open>match_here\<close> is the attempt at one start position, \<open>regex_match\<close>
  moves the start position from left to right.
\<close>

definition match_here :: "string \<Rightarrow> (string \<times> char) option" where
  "match_here s =
     (let ds = takeWhile is_digit s; rest = dropWhile is_digit s
      in case rest of
           [] \<Rightarrow> None
         | u # _ \<Rightarrow> if ds \<noteq> [] \<and> is_unit u then Some (ds, u) else None)"

fun regex_match :: "string \<Rightarrow> (string \<times> char) option" where
  "regex_match [] = None"
| "regex_match (c # cs) =
     (case match_here (c # cs) of
        Some r \<Rightarrow> Some r
      | None \<Rightarrow> regex_match cs)"

text \<open>\<^verbatim>\<open>parseInt(value, 10)\<close> on a string of decimal digits.\<close>

definition digit_val :: "char \<Rightarrow> int" where
  "digit_val c = int (of_char c) - 48"

definition parseInt :: "string \<Rightarrow> int" where
  "parseInt ds = foldl (\<lambda>n c. 10 * n + digit_val c) 0 ds"

definition multipliers :: "char \<rightharpoonup> int" where
  "multipliers = map_of [(CHR ''s'', 1), (CHR ''m'', 60), (CHR ''h'', 3600), (CHR ''d'', 86400)]"

text \<open>\<^verbatim>\<open>multipliers[unit] || 86400\<close>: an absent entry is undefined, hence falsy, as is 0.\<close>

definition multiplier_or_default :: "char \<Rightarrow> int" where
  "multiplier_or_default u =
     (case multipliers u of None \<Rightarrow> 86400 | Some m \<Rightarrow> if m = 0 then 86400 else m)"

definition getExpirySeconds :: "string \<Rightarrow> int" where
  "getExpirySeconds timeStr =
     (case regex_match timeStr of
        None \<Rightarrow> 86400
      | Some (value, unit) \<Rightarrow> parseInt value * multiplier_or_default unit)"

text \<open>
  The specification's wording, for comparison: a numeric magnitude with a single unit
  letter can be extracted from a string when some digit in it is directly followed by one
  of the letters s, m, h, d.
\<close>

definition magnitude_with_unit :: "string \<Rightarrow> bool" where
  "magnitude_with_unit s \<longleftrightarrow> list_ex (\<lambda>(a, b). is_digit a \<and> is_unit b) (zip s (tl s))"

section \<open>Password policy: \<^verbatim>\<open>BcryptService.validatePassword\<close>\<close>

definition saltRounds :: nat where
  "saltRounds = 10"

definition minPasswordLength :: nat where
  "minPasswordLength = 12"

text \<open>
  A lookahead \<^verbatim>\<open>(?=.*X)\<close> at the start of the string: \<^verbatim>\<open>.*\<close> walks over characters that
  are not line terminators, and at some point the next character must be in the class X.
\<close>

fun dot_star_then :: "(char \<Rightarrow> bool) \<Rightarrow> string \<Rightarrow> bool" where
  "dot_star_then X [] = False"
| "dot_star_then X (c # cs) = (X c \<or> (\<not> line_terminator c \<and> dot_star_then X cs))"

text \<open>The class \<^verbatim>\<open>[A-Za-z\d@$!%*?&]\<close> of the body of the expression.\<close>

definition is_allowed :: "char \<Rightarrow> bool" where
  "is_allowed c \<longleftrightarrow> is_upper c \<or> is_lower c \<or> is_digit c \<or> is_special c"

text \<open>
  \<^verbatim>\<open>/^(?=.*[a-z])(?=.*[A-Z])(?=.*\d)(?=.*[@$!%*?&])[A-Za-z\d@$!%*?&]+$/.test(password)\<close>
\<close>

definition passwordRegex_test :: "string \<Rightarrow> bool" where
  "passwordRegex_test password \<longleftrightarrow>
     dot_star_then is_lower password \<and> dot_star_then is_upper password
     \<and> dot_star_then is_digit password \<and> dot_star_then is_special password
     \<and> password \<noteq> [] \<and> list_all is_allowed password"

record validation =
  valid :: bool
  errors :: "string list"

definition validatePassword :: "string \<Rightarrow> validation" where
  "validatePassword password =
     (let e0 = (if length password < minPasswordLength
                then [''Password must be at least 12 characters long''] else []);
          e1 = (if \<not> passwordRegex_test password
                then e0
                  @ (if \<not> list_ex is_lower password
                     then [''Password must contain at least one lowercase letter''] else [])
                  @ (if \<not> list_ex is_upper password
                     then [''Password must contain at least one uppercase letter''] else [])
                  @ (if \<not> list_ex is_digit password
                     then [''Password must contain at least one number''] else [])
                  @ (if \<not> list_ex is_special password
                     then [''Password must contain at least one special character (@$!%*?&)'']
                     else [])
                else e0)
      in \<lparr>valid = (e1 = []), errors = e1\<rparr>)"

text \<open>
  The rules in the specification's wording, for comparison with what
  \<open>validatePassword\<close> reports: each rule, when a password violates it, and the message
  that reports it.
\<close>

datatype rule = MinLength | HasLowercase | HasUppercase | HasDigit | HasSpecial

fun violates :: "string \<Rightarrow> rule \<Rightarrow> bool" where
  "violates password MinLength = (length password < 12)"
| "violates password HasLowercase = (\<not> list_ex is_lower password)"
| "violates password HasUppercase = (\<not> list_ex is_upper password)"
| "violates password HasDigit = (\<not> list_ex is_digit password)"
| "violates password HasSpecial = (\<not> list_ex is_special password)"

fun rule_message :: "rule \<Rightarrow> string" where
  "rule_message MinLength = ''Password must be at least 12 characters long''"
| "rule_message HasLowercase = ''Password must contain at least one lowercase letter''"
| "rule_message HasUppercase = ''Password must contain at least one uppercase letter''"
| "rule_message HasDigit = ''Password must contain at least one number''"
| "rule_message HasSpecial = ''Password must contain at least one special character (@$!%*?&)''"

section \<open>Login throttle: \<^verbatim>\<open>RateLimiter\<close>\<close>

text \<open>
  The limiter's map from identifier to \<^verbatim>\<open>{ count, timestamp }\<close>. Time is the reading of
  \<^verbatim>\<open>Date.now()\<close> in milliseconds, passed to each operation.
\<close>

record attempt =
  count :: int
  timestamp :: int

type_synonym limiter = "string \<rightharpoonup> attempt"

definition maxAttempts :: int where
  "maxAttempts = 5"

definition lockoutDuration :: int where
  "lockoutDuration = 15 * 60 * 1000"

definition isLocked :: "int \<Rightarrow> string \<Rightarrow> limiter \<Rightarrow> bool \<times> limiter" where
  "isLocked now identifier m =
     (case m identifier of
        None \<Rightarrow> (False, m)
      | Some r \<Rightarrow>
          if now - timestamp r > lockoutDuration
          then (False, m(identifier := None))
          else (count r \<ge> maxAttempts, m))"

definition recordAttempt :: "int \<Rightarrow> string \<Rightarrow> limiter \<Rightarrow> limiter" where
  "recordAttempt now identifier m =
     (case m identifier of
        None \<Rightarrow> m(identifier \<mapsto> \<lparr>count = 1, timestamp = now\<rparr>)
      | Some r \<Rightarrow>
          if now - timestamp r > lockoutDuration
          then m(identifier \<mapsto> \<lparr>count = 1, timestamp = now\<rparr>)
          else m(identifier \<mapsto> \<lparr>count = count r + 1, timestamp = now\<rparr>))"

definition resetAttempts :: "string \<Rightarrow> limiter \<Rightarrow> limiter" where
  "resetAttempts identifier m = m(identifier := None)"

text \<open>A sequence of failures for one identifier, recorded at the given clock readings.\<close>

fun recordAttempts :: "int list \<Rightarrow> string \<Rightarrow> limiter \<Rightarrow> limiter" where
  "recordAttempts [] identifier m = m"
| "recordAttempts (t # ts) identifier m = recordAttempts ts identifier (recordAttempt t identifier m)"

text \<open>
  Each clock reading of the list lies within the lockout window of the one before it,
  the first one counted from \<open>t0\<close>.
\<close>

fun within_window :: "int \<Rightarrow> int list \<Rightarrow> bool" where
  "within_window t0 [] = True"
| "within_window t0 (t # ts) = (t - t0 \<le> lockoutDuration \<and> within_window t ts)"

text \<open>
  The specification's state \<^emph>\<open>Open\<close> at a clock reading: no record, or a record older than
  the lockout window.
\<close>

definition is_open :: "int \<Rightarrow> string \<Rightarrow> limiter \<Rightarrow> bool" where
  "is_open now identifier m =
     (case m identifier of None \<Rightarrow> True | Some r \<Rightarrow> now - timestamp r > lockoutDuration)"

section \<open>Values and objects of the runtime\<close>

text \<open>
  The values that flow through token payloads and request contexts: \<^verbatim>\<open>undefined\<close> (what
  reading an absent property gives), integers, strings and objects. An object is the list
  of its properties in insertion order; where a name occurs twice, the first occurrence is
  the property.
\<close>

datatype jsval = Undefined | JNum int | JStr string | JObj "(string \<times> jsval) list"

type_synonym obj = "(string \<times> jsval) list"

text \<open>The property read \<^verbatim>\<open>o.k\<close>.\<close>

definition field :: "obj \<Rightarrow> string \<Rightarrow> jsval" where
  "field ob k = (case map_of ob k of None \<Rightarrow> Undefined | Some v \<Rightarrow> v)"

text \<open>
  What \<^verbatim>\<open>JSON.stringify\<close> followed by \<^verbatim>\<open>JSON.parse\<close> leaves of a value: properties whose
  value is \<^verbatim>\<open>undefined\<close> are dropped, at every depth.
\<close>

fun json :: "jsval \<Rightarrow> jsval" and json_props :: "obj \<Rightarrow> obj" where
  "json (JObj ps) = JObj (json_props ps)"
| "json Undefined = Undefined"
| "json (JNum n) = JNum n"
| "json (JStr s) = JStr s"
| "json_props [] = []"
| "json_props ((k, v) # ps) =
     (if v = Undefined then json_props ps else (k, json v) # json_props ps)"

text \<open>Whether a property named \<open>k\<close> occurs in a value, at any depth.\<close>

fun mentions :: "string \<Rightarrow> jsval \<Rightarrow> bool" and props_mention :: "string \<Rightarrow> obj \<Rightarrow> bool" where
  "mentions k (JObj ps) = props_mention k ps"
| "mentions k Undefined = False"
| "mentions k (JNum n) = False"
| "mentions k (JStr s) = False"
| "props_mention k [] = False"
| "props_mention k ((k', v) # ps) = (k' = k \<or> mentions k v \<or> props_mention k ps)"

text \<open>
  \<^verbatim>\<open>v < n\<close> for a number \<open>n\<close>: \<^verbatim>\<open>undefined\<close> and a plain object convert to NaN, and every
  comparison with NaN is false. How the runtime reads a string as a number is not part of
  this development; the comparison of a string with a number is the parameter \<open>str_less\<close>.
\<close>

definition js_less :: "(string \<Rightarrow> int \<Rightarrow> bool) \<Rightarrow> jsval \<Rightarrow> int \<Rightarrow> bool" where
  "js_less str_less v n =
     (case v of
        Undefined \<Rightarrow> False
      | JNum m \<Rightarrow> m < n
      | JStr s \<Rightarrow> str_less s n
      | JObj _ \<Rightarrow> False)"

section \<open>Types of \<^verbatim>\<open>types/auth.ts\<close>\<close>

datatype UserRole = ADMIN | FARMACEUTICO | OPERADOR | VISUALIZADOR | USUARIO

text \<open>The string value of each member of the enum.\<close>

fun role_value :: "UserRole \<Rightarrow> string" where
  "role_value ADMIN = ''ADMIN''"
| "role_value FARMACEUTICO = ''FARMACEUTICO''"
| "role_value OPERADOR = ''OPERADOR''"
| "role_value VISUALIZADOR = ''VISUALIZADOR''"
| "role_value USUARIO = ''USUARIO''"

text \<open>
  The numeric enum \<^verbatim>\<open>AccessLevel\<close>; its members carry the prefix \<open>Level\<close> here because
  \<open>ADMIN\<close> is a role as well.
\<close>

datatype AccessLevel = Level_NONE | Level_READ | Level_WRITE | Level_DELETE | Level_ADMIN

fun level_value :: "AccessLevel \<Rightarrow> int" where
  "level_value Level_NONE = 0"
| "level_value Level_READ = 1"
| "level_value Level_WRITE = 2"
| "level_value Level_DELETE = 3"
| "level_value Level_ADMIN = 4"

text \<open>
  The object \<^verbatim>\<open>{ id, email, role, accessLevel }\<close> that the authentication service passes
  to the token service, and the record the service keeps for each user: the same
  properties with \<^verbatim>\<open>name\<close>, \<^verbatim>\<open>createdAt\<close> and the hashed \<^verbatim>\<open>password\<close>. A date is
  represented by its time value.
\<close>

record subject =
  id :: string
  email :: string
  role :: UserRole
  accessLevel :: AccessLevel

record stored_user = subject +
  name :: string
  createdAt :: int
  password :: string

section \<open>Token service: \<^verbatim>\<open>JWTService\<close>\<close>

text \<open>
  Signing and verification are the library \<^verbatim>\<open>jsonwebtoken\<close>. Its cryptography is modelled
  symbolically: a token string is either not a well-formed HS256 token at all, or it
  carries a JSON payload and a signature that verifies under the secret it was made with
  and under no other. Numbers are integers, and the two readings of \<^verbatim>\<open>Date.now()\<close> that
  go into one token are one reading \<open>now\<close>, in milliseconds.
\<close>

datatype token = Malformed | Signed obj string

text \<open>The payload a token carries; it can be read without the secret.\<close>

definition token_payload :: "token \<Rightarrow> obj" where
  "token_payload tok = (case tok of Malformed \<Rightarrow> [] | Signed payload _ \<Rightarrow> payload)"

definition jwt_sign :: "obj \<Rightarrow> string \<Rightarrow> token" where
  "jwt_sign payload secret = Signed (json_props payload) secret"

text \<open>
  \<^verbatim>\<open>jwt.verify(token, secret, { algorithms: ['HS256'] })\<close>, with \<open>None\<close> for every error it
  throws: a bad signature, a \<^verbatim>\<open>nbf\<close> or \<^verbatim>\<open>exp\<close> claim that is not a number, a token not yet
  active, a token whose \<^verbatim>\<open>exp\<close> the clock (in seconds) has reached.
\<close>

definition claim_ok :: "jsval \<Rightarrow> (int \<Rightarrow> bool) \<Rightarrow> bool" where
  "claim_ok v accept =
     (case v of Undefined \<Rightarrow> True | JNum n \<Rightarrow> accept n | JStr _ \<Rightarrow> False | JObj _ \<Rightarrow> False)"

definition jwt_verify :: "int \<Rightarrow> token \<Rightarrow> string \<Rightarrow> obj option" where
  "jwt_verify now tok secret =
     (case tok of
        Malformed \<Rightarrow> None
      | Signed payload key \<Rightarrow>
          let clockTimestamp = now div 1000 in
          if key \<noteq> secret then None
          else if \<not> claim_ok (field payload ''nbf'') (\<lambda>nbf. \<not> nbf > clockTimestamp) then None
          else if \<not> claim_ok (field payload ''exp'') (\<lambda>exp. \<not> clockTimestamp \<ge> exp) then None
          else Some payload)"

text \<open>
  The four settings of the service, each read from the environment with a default:
  \<^verbatim>\<open>process.env.X || d\<close> is \<open>d\<close> when the variable is unset or empty.
\<close>

record environment =
  JWT_SECRET :: "string option"
  REFRESH_TOKEN_SECRET :: "string option"
  JWT_EXPIRE :: "string option"
  REFRESH_TOKEN_EXPIRE :: "string option"

record jwt_service =
  jwtSecret :: string
  refreshSecret :: string
  jwtExpire :: string
  refreshExpire :: string

definition or_default :: "string option \<Rightarrow> string \<Rightarrow> string" where
  "or_default v d = (case v of None \<Rightarrow> d | Some s \<Rightarrow> if s = [] then d else s)"

definition JWTService :: "environment \<Rightarrow> jwt_service" where
  "JWTService env =
     \<lparr>jwtSecret = or_default (JWT_SECRET env) ''secret-key-change-me'',
      refreshSecret = or_default (REFRESH_TOKEN_SECRET env) ''refresh-key-change-me'',
      jwtExpire = or_default (JWT_EXPIRE env) ''24h'',
      refreshExpire = or_default (REFRESH_TOKEN_EXPIRE env) ''7d''\<rparr>"

definition generateAccessToken :: "jwt_service \<Rightarrow> int \<Rightarrow> subject \<Rightarrow> token" where
  "generateAccessToken svc now u =
     jwt_sign
       [(''userId'', JStr (id u)),
        (''email'', JStr (email u)),
        (''role'', JStr (role_value (role u))),
        (''iat'', JNum (now div 1000)),
        (''exp'', JNum (now div 1000 + getExpirySeconds (jwtExpire svc)))]
       (jwtSecret svc)"

text \<open>
  The parameter is declared a string, and the login flow passes the object
  \<^verbatim>\<open>{ id, email }\<close>; it is a value here.
\<close>

definition generateRefreshToken :: "jwt_service \<Rightarrow> int \<Rightarrow> jsval \<Rightarrow> token" where
  "generateRefreshToken svc now userId =
     jwt_sign
       [(''userId'', userId),
        (''type'', JStr ''refresh''),
        (''iat'', JNum (now div 1000)),
        (''exp'', JNum (now div 1000 + getExpirySeconds (refreshExpire svc)))]
       (refreshSecret svc)"

definition verifyAccessToken :: "jwt_service \<Rightarrow> int \<Rightarrow> token \<Rightarrow> obj option" where
  "verifyAccessToken svc now tok = jwt_verify now tok (jwtSecret svc)"

definition verifyRefreshToken :: "jwt_service \<Rightarrow> int \<Rightarrow> token \<Rightarrow> obj option" where
  "verifyRefreshToken svc now tok =
     (case jwt_verify now tok (refreshSecret svc) of
        None \<Rightarrow> None
      | Some payload \<Rightarrow> Some [(''userId'', field payload ''userId'')])"

section \<open>Request pipeline: \<^verbatim>\<open>authMiddleware\<close> and \<^verbatim>\<open>accessLevelMiddleware\<close>\<close>

text \<open>
  A middleware either answers with a status and an error message or calls \<^verbatim>\<open>next()\<close>.
  Of the request only its optional \<^verbatim>\<open>user\<close> object matters, \<open>None\<close> when it is not set.
  \<open>authMiddleware\<close> starts from what \<^verbatim>\<open>extractTokenFromHeader\<close> returned for the
  request's header (\<open>None\<close> for null) and returns the request's \<^verbatim>\<open>user\<close> as it leaves it.
  \<open>verifyAccessToken\<close> catches what the library throws, so the \<^verbatim>\<open>catch\<close> branch of
  \<open>authMiddleware\<close> has nothing to catch and does not appear.
\<close>

datatype outcome = Respond int string | Next

definition authMiddleware ::
  "jwt_service \<Rightarrow> int \<Rightarrow> token option \<Rightarrow> obj option \<Rightarrow> outcome \<times> obj option" where
  "authMiddleware svc now extracted req_user =
     (case extracted of
        None \<Rightarrow> (Respond 401 ''No token provided'', req_user)
      | Some tok \<Rightarrow>
          (case verifyAccessToken svc now tok of
             None \<Rightarrow> (Respond 401 ''Invalid token'', req_user)
           | Some decoded \<Rightarrow>
               (Next, Some
                  [(''id'', field decoded ''id''),
                   (''email'', field decoded ''email''),
                   (''role'', field decoded ''role''),
                   (''accessLevel'', field decoded ''accessLevel'')])))"

definition accessLevelMiddleware ::
  "(string \<Rightarrow> int \<Rightarrow> bool) \<Rightarrow> AccessLevel \<Rightarrow> obj option \<Rightarrow> outcome" where
  "accessLevelMiddleware str_less requiredLevel req_user =
     (case req_user of
        None \<Rightarrow> Respond 401 ''User not authenticated''
      | Some u \<Rightarrow>
          if js_less str_less (field u ''accessLevel'') (level_value requiredLevel)
          then Respond 403 ''Insufficient access level''
          else Next)"

section \<open>Authentication service: \<^verbatim>\<open>AuthService\<close>\<close>

text \<open>
  The library \<^verbatim>\<open>bcrypt\<close> is a parameter: \<open>bcrypt_hash\<close> and \<open>bcrypt_compare\<close> give the
  result of \<^verbatim>\<open>bcrypt.hash\<close> and \<^verbatim>\<open>bcrypt.compare\<close>, \<open>None\<close> when the call throws.
\<close>

record bcrypt =
  bcrypt_hash :: "string \<Rightarrow> nat \<Rightarrow> string option"
  bcrypt_compare :: "string \<Rightarrow> string \<Rightarrow> bool option"

datatype error = Error string

text \<open>\<^verbatim>\<open>errors.join(', ')\<close>\<close>

fun join :: "string \<Rightarrow> string list \<Rightarrow> string" where
  "join sep [] = []"
| "join sep [x] = x"
| "join sep (x # y # ys) = x @ sep @ join sep (y # ys)"

definition hashPassword :: "bcrypt \<Rightarrow> string \<Rightarrow> error + string" where
  "hashPassword bc pw =
     (let validation = validatePassword pw in
      if \<not> valid validation
      then Inl (Error (''Invalid password: '' @ join '', '' (errors validation)))
      else (case bcrypt_hash bc pw saltRounds of
              None \<Rightarrow> Inl (Error ''Error hashing password'')
            | Some hashedPassword \<Rightarrow> Inr hashedPassword))"

definition comparePassword :: "bcrypt \<Rightarrow> string \<Rightarrow> string \<Rightarrow> error + bool" where
  "comparePassword bc plainPassword hashedPassword =
     (case bcrypt_compare bc plainPassword hashedPassword of
        None \<Rightarrow> Inl (Error ''Error comparing passwords'')
      | Some isMatch \<Rightarrow> Inr isMatch)"

text \<open>
  The module's \<^verbatim>\<open>users\<close> map, keyed by email, in insertion order, and the limiter's map:
  the two pieces of state the service works on.
\<close>

type_synonym user_store = "(string \<times> stored_user) list"

record auth_state =
  users :: user_store
  loginAttempts :: limiter

text \<open>
  \<^verbatim>\<open>users.get(k)\<close> for a key that is any value: the keys of the map are strings, so only
  a string finds an entry.
\<close>

definition users_get :: "user_store \<Rightarrow> jsval \<Rightarrow> stored_user option" where
  "users_get us k = (case k of JStr e \<Rightarrow> map_of us e | _ \<Rightarrow> None)"

text \<open>\<^verbatim>\<open>users.set(k, v)\<close>: an existing key keeps its place, a new one goes last.\<close>

fun users_set :: "user_store \<Rightarrow> string \<Rightarrow> stored_user \<Rightarrow> user_store" where
  "users_set [] k v = [(k, v)]"
| "users_set ((k', v') # us) k v =
     (if k' = k then (k, v) # us else (k', v') # users_set us k v)"

text \<open>
  The stored object with all its properties, and what the destructuring
  \<^verbatim>\<open>const { password: _, ...userWithoutPassword } = user\<close> leaves of it.
\<close>

definition user_object :: "stored_user \<Rightarrow> obj" where
  "user_object u =
     [(''id'', JStr (id u)),
      (''email'', JStr (email u)),
      (''name'', JStr (name u)),
      (''role'', JStr (role_value (role u))),
      (''accessLevel'', JNum (level_value (accessLevel u))),
      (''createdAt'', JNum (createdAt u)),
      (''password'', JStr (password u))]"

definition userWithoutPassword :: "stored_user \<Rightarrow> obj" where
  "userWithoutPassword u = filter (\<lambda>(k, v). k \<noteq> ''password'') (user_object u)"

text \<open>
  \<open>register\<close>: the request's fields are the arguments \<open>email_in\<close>, \<open>password_in\<close>,
  \<open>name_in\<close> and the optional \<open>role_in\<close>; \<open>new_id\<close> is the identifier that
  \<^verbatim>\<open>Math.random().toString(36).substr(2, 9)\<close> yields and \<open>now\<close> the clock reading.
  A missing string field is the empty string.
\<close>

definition register ::
  "bcrypt \<Rightarrow> string \<Rightarrow> int \<Rightarrow> string \<Rightarrow> string \<Rightarrow> string \<Rightarrow> UserRole option \<Rightarrow> auth_state
     \<Rightarrow> (error + obj) \<times> auth_state" where
  "register bc new_id now email_in password_in name_in role_in s =
     (if email_in = [] \<or> password_in = [] \<or> name_in = []
      then (Inl (Error ''Email, password, and name are required''), s)
      else if map_of (users s) email_in \<noteq> None
      then (Inl (Error ''User already exists''), s)
      else (case hashPassword bc password_in of
              Inl e \<Rightarrow> (Inl e, s)
            | Inr hashedPassword \<Rightarrow>
                let u = \<lparr>id = new_id,
                         email = email_in,
                         role = (case role_in of None \<Rightarrow> USUARIO | Some r \<Rightarrow> r),
                         accessLevel = Level_READ,
                         name = name_in,
                         createdAt = now,
                         password = hashedPassword\<rparr>
                in (Inr (userWithoutPassword u), s\<lparr>users := users_set (users s) email_in u\<rparr>)))"

record RefreshResponse =
  accessToken :: token

record LoginResponse = RefreshResponse +
  refreshToken :: token
  user :: obj

text \<open>
  \<open>login\<close>, with one clock reading \<open>now\<close> for the whole call. The limiter is consulted
  first; \<open>isLocked\<close> may delete an expired record, and that change stays whatever
  follows.
\<close>

definition login ::
  "bcrypt \<Rightarrow> jwt_service \<Rightarrow> int \<Rightarrow> string \<Rightarrow> string \<Rightarrow> auth_state
     \<Rightarrow> (error + LoginResponse) \<times> auth_state" where
  "login bc svc now email_in password_in s =
     (if email_in = [] \<or> password_in = []
      then (Inl (Error ''Email and password are required''), s)
      else
        let (locked, m) = isLocked now email_in (loginAttempts s);
            s1 = s\<lparr>loginAttempts := m\<rparr>
        in if locked
           then (Inl (Error ''Account locked due to too many failed login attempts. Try again in 15 minutes.''), s1)
           else (case map_of (users s1) email_in of
                   None \<Rightarrow>
                     (Inl (Error ''Invalid email or password''),
                      s1\<lparr>loginAttempts := recordAttempt now email_in m\<rparr>)
                 | Some u \<Rightarrow>
                     (case comparePassword bc password_in (password u) of
                        Inl e \<Rightarrow> (Inl e, s1)
                      | Inr isPasswordValid \<Rightarrow>
                          if \<not> isPasswordValid
                          then (Inl (Error ''Invalid email or password''),
                                s1\<lparr>loginAttempts := recordAttempt now email_in m\<rparr>)
                          else
                            (Inr \<lparr>accessToken = generateAccessToken svc now
                                     \<lparr>id = id u, email = email u, role = role u,
                                      accessLevel = accessLevel u\<rparr>,
                                   refreshToken = generateRefreshToken svc now
                                     (JObj [(''id'', JStr (id u)), (''email'', JStr (email u))]),
                                   user =
                                     [(''id'', JStr (id u)),
                                      (''email'', JStr (email u)),
                                      (''role'', JStr (role_value (role u))),
                                      (''accessLevel'', JNum (level_value (accessLevel u)))]\<rparr>,
                             s1\<lparr>loginAttempts := resetAttempts email_in m\<rparr>))))"

text \<open>
  \<open>refreshAccessToken\<close> reads the property \<^verbatim>\<open>email\<close> of what \<open>verifyRefreshToken\<close>
  returned and looks it up in the map. It changes no state.
\<close>

definition refreshAccessToken ::
  "jwt_service \<Rightarrow> int \<Rightarrow> token \<Rightarrow> auth_state \<Rightarrow> error + RefreshResponse" where
  "refreshAccessToken svc now refreshToken_in s =
     (case verifyRefreshToken svc now refreshToken_in of
        None \<Rightarrow> Inl (Error ''Invalid refresh token'')
      | Some decoded \<Rightarrow>
          (case users_get (users s) (field decoded ''email'') of
             None \<Rightarrow> Inl (Error ''User not found'')
           | Some u \<Rightarrow>
               Inr \<lparr>accessToken = generateAccessToken svc now
                      \<lparr>id = id u, email = email u, role = role u,
                       accessLevel = accessLevel u\<rparr>\<rparr>))"

text \<open>The loops over the map's values and entries stop at the first user with the id.\<close>

definition getUserById :: "string \<Rightarrow> auth_state \<Rightarrow> obj option" where
  "getUserById userId s =
     (case find (\<lambda>u. id u = userId) (map snd (users s)) of
        None \<Rightarrow> None
      | Some u \<Rightarrow> Some (userWithoutPassword u))"

fun update_first :: "string \<Rightarrow> (stored_user \<Rightarrow> stored_user) \<Rightarrow> user_store
    \<Rightarrow> (stored_user \<times> user_store) option" where
  "update_first userId f [] = None"
| "update_first userId f ((e, u) # us) =
     (if id u = userId then Some (f u, (e, f u) # us)
      else (case update_first userId f us of
              None \<Rightarrow> None
            | Some (u', us') \<Rightarrow> Some (u', (e, u) # us')))"

definition updateUserAccessLevel ::
  "string \<Rightarrow> AccessLevel \<Rightarrow> auth_state \<Rightarrow> (error + obj) \<times> auth_state" where
  "updateUserAccessLevel userId level s =
     (case update_first userId (\<lambda>u. u\<lparr>accessLevel := level\<rparr>) (users s) of
        None \<Rightarrow> (Inl (Error ''User not found''), s)
      | Some (u, us) \<Rightarrow> (Inr (userWithoutPassword u), s\<lparr>users := us\<rparr>))"

definition updateUserRole ::
  "string \<Rightarrow> UserRole \<Rightarrow> auth_state \<Rightarrow> (error + obj) \<times> auth_state" where
  "updateUserRole userId r s =
     (case update_first userId (\<lambda>u. u\<lparr>role := r\<rparr>) (users s) of
        None \<Rightarrow> (Inl (Error ''User not found''), s)
      | Some (u, us) \<Rightarrow> (Inr (userWithoutPassword u), s\<lparr>users := us\<rparr>))"

section \<open>Concrete inputs\<close>

text \<open>
  Inputs on which the service is run in the examples below: the environment with no
  variable set, a stand-in for the hashing library that compares by equality, the state
  after Ana has registered in an empty system, and the state after five logins with a
  wrong password have followed, one second apart.
\<close>

definition example_env :: environment where
  "example_env = \<lparr>JWT_SECRET = None, REFRESH_TOKEN_SECRET = None,
                   JWT_EXPIRE = None, REFRESH_TOKEN_EXPIRE = None\<rparr>"

definition example_bcrypt :: bcrypt where
  "example_bcrypt =
     \<lparr>bcrypt_hash = (\<lambda>pw rounds. Some (''$2b$10$'' @ pw)),
      bcrypt_compare = (\<lambda>pw hashed. Some (hashed = ''$2b$10$'' @ pw))\<rparr>"

definition example_state :: auth_state where
  "example_state =
     snd (register example_bcrypt ''k3j9x2m1q'' 0 ''a@x.com'' ''Str0ng!Pass123'' ''Ana'' None
            \<lparr>users = [], loginAttempts = Map.empty\<rparr>)"

definition example_failures :: auth_state where
  "example_failures =
     foldl (\<lambda>s t. snd (login example_bcrypt (JWTService example_env) t ''a@x.com'' ''wrong'' s))
       example_state [1000, 2000, 3000, 4000, 5000]"

section \<open>Duration parsing\<close>

lemma match_here_Cons:
  "match_here (c # cs) =
     (if is_digit c
      then (case dropWhile is_digit cs of
              [] \<Rightarrow> None
            | u # _ \<Rightarrow> if is_unit u then Some (c # takeWhile is_digit cs, u) else None)
      else None)"
  by (cases "dropWhile is_digit cs")
     (simp_all add: match_here_def Let_def del: dropWhile_eq_Nil_conv)

lemma magnitude_with_unit_Cons2:
  "magnitude_with_unit (c # d # ds) \<longleftrightarrow>
     (is_digit c \<and> is_unit d) \<or> magnitude_with_unit (d # ds)"
  by (simp add: magnitude_with_unit_def)

lemma magnitude_with_unit_tail: "magnitude_with_unit cs \<Longrightarrow> magnitude_with_unit (c # cs)"
  by (cases cs) (simp_all add: magnitude_with_unit_def)

text \<open>A match at a start position shows a digit directly followed by a unit letter.\<close>

lemma match_here_magnitude: "match_here s = Some r \<Longrightarrow> magnitude_with_unit s"
proof (induction s arbitrary: r)
  case Nil
  then show ?case by (simp add: match_here_def)
next
  case (Cons c cs)
  from Cons.prems have dc: "is_digit c"
    by (simp add: match_here_Cons split: if_splits)
  from Cons.prems obtain u rest where dw: "dropWhile is_digit cs = u # rest" and uu: "is_unit u"
    by (auto simp: match_here_Cons split: if_splits list.splits)
  then obtain d ds where cs: "cs = d # ds" by (cases cs) auto
  show ?case
  proof (cases "is_digit d")
    case True
    with dw uu cs have "match_here cs = Some (d # takeWhile is_digit ds, u)"
      by (simp add: match_here_Cons)
    from Cons.IH[OF this] show ?thesis using cs by (simp add: magnitude_with_unit_Cons2)
  next
    case False
    with dw cs have "u = d" by simp
    with uu dc cs show ?thesis by (simp add: magnitude_with_unit_Cons2)
  qed
qed

lemma regex_match_magnitude: "regex_match s = Some r \<Longrightarrow> magnitude_with_unit s"
proof (induction s)
  case Nil
  then show ?case by simp
next
  case (Cons c cs)
  show ?case
  proof (cases "match_here (c # cs)")
    case None
    with Cons show ?thesis by (simp add: magnitude_with_unit_tail)
  next
    case (Some a)
    then show ?thesis by (rule match_here_magnitude)
  qed
qed

text \<open>
  Conversely a digit directly followed by a unit letter gives a match, so the strings
  without a match are exactly those in which no such pair occurs.
\<close>

lemma unit_not_digit: "is_unit c \<Longrightarrow> \<not> is_digit c"
  by (auto simp: is_unit_def is_digit_def)

lemma magnitude_regex_match: "magnitude_with_unit s \<Longrightarrow> regex_match s \<noteq> None"
proof (induction s)
  case Nil
  then show ?case by (simp add: magnitude_with_unit_def)
next
  case (Cons c cs)
  show ?case
  proof (cases cs)
    case Nil
    with Cons.prems show ?thesis by (simp add: magnitude_with_unit_def)
  next
    case (Cons d ds)
    show ?thesis
    proof (cases "is_digit c \<and> is_unit d")
      case True
      then have "match_here (c # d # ds) = Some ([c], d)"
        by (simp add: match_here_Cons unit_not_digit)
      with Cons show ?thesis by simp
    next
      case False
      with Cons.prems Cons have "magnitude_with_unit cs"
        by (simp add: magnitude_with_unit_Cons2)
      with Cons.IH show ?thesis by (cases "match_here (c # cs)") auto
    qed
  qed
qed

lemma regex_match_None_iff: "regex_match s = None \<longleftrightarrow> \<not> magnitude_with_unit s"
proof
  assume "regex_match s = None"
  with magnitude_regex_match show "\<not> magnitude_with_unit s" by blast
next
  assume "\<not> magnitude_with_unit s"
  with regex_match_magnitude show "regex_match s = None"
    by (cases "regex_match s") auto
qed

text \<open>
  C10. \<open>getExpirySeconds\<close> maps "45s" to 45, "30m" to 1800, "24h" to 86400 and "7d" to
  604800 seconds, and for every string in which no digit is directly followed by one of
  the unit letters s, m, h, d it returns the default of 86400 seconds. The function is
  total: it returns a number on every string.
\<close>

theorem getExpirySeconds_examples_and_default:
  "getExpirySeconds ''45s'' = 45
   \<and> getExpirySeconds ''30m'' = 1800
   \<and> getExpirySeconds ''24h'' = 86400
   \<and> getExpirySeconds ''7d'' = 604800
   \<and> (\<not> magnitude_with_unit timeStr \<longrightarrow> getExpirySeconds timeStr = 86400)"
proof -
  have e1: "getExpirySeconds ''45s'' = 45" by code_simp
  have e2: "getExpirySeconds ''30m'' = 1800" by code_simp
  have e3: "getExpirySeconds ''24h'' = 86400" by code_simp
  have e4: "getExpirySeconds ''7d'' = 604800" by code_simp
  have d: "\<not> magnitude_with_unit timeStr \<longrightarrow> getExpirySeconds timeStr = 86400"
  proof
    assume "\<not> magnitude_with_unit timeStr"
    then have "regex_match timeStr = None"
      using regex_match_magnitude by (cases "regex_match timeStr") auto
    then show "getExpirySeconds timeStr = 86400" by (simp add: getExpirySeconds_def)
  qed
  from e1 e2 e3 e4 d show ?thesis by simp
qed

text \<open>C10 at the string "forever", which holds no magnitude with a unit.\<close>

theorem getExpirySeconds_default_witness:
  "\<not> magnitude_with_unit ''forever'' \<and> getExpirySeconds ''forever'' = 86400"
  using getExpirySeconds_examples_and_default [of "''forever''"]
  by (simp add: magnitude_with_unit_def is_digit_def)

section \<open>Password policy\<close>

lemma dot_star_then_imp: "dot_star_then X s \<Longrightarrow> list_ex X s"
  by (induction s) auto

text \<open>When the whole expression matches, every class is present.\<close>

lemma passwordRegex_classes:
  "passwordRegex_test p \<Longrightarrow>
   list_ex is_lower p \<and> list_ex is_upper p \<and> list_ex is_digit p \<and> list_ex is_special p"
  by (simp add: passwordRegex_test_def dot_star_then_imp)

lemma ex_rule:
  "(\<exists>r. P r) \<longleftrightarrow> P MinLength \<or> P HasLowercase \<or> P HasUppercase \<or> P HasDigit \<or> P HasSpecial"
  by (metis rule.exhaust)

lemma errors_mem:
  "x \<in> set (errors (validatePassword p)) \<longleftrightarrow> (\<exists>r. violates p r \<and> x = rule_message r)"
proof (cases "passwordRegex_test p")
  case True
  from passwordRegex_classes[OF True] show ?thesis using True
    by (auto simp: ex_rule validatePassword_def minPasswordLength_def)
next
  case False
  then show ?thesis
    by (auto simp: ex_rule validatePassword_def minPasswordLength_def)
qed

lemma errors_distinct: "distinct (errors (validatePassword p))"
  by (simp add: validatePassword_def)

lemma valid_iff: "valid (validatePassword p) \<longleftrightarrow> errors (validatePassword p) = []"
  by (simp add: validatePassword_def Let_def)

text \<open>
  C8. The messages that \<open>validatePassword\<close> reports are exactly the messages of the rules
  the password violates, each once; and a password that violates some rule (it is shorter
  than 12 characters or lacks a lowercase letter, an uppercase letter, a digit or a special
  character) is reported invalid.
\<close>

theorem validatePassword_reports_violations:
  "set (errors (validatePassword pw)) = rule_message ` {r. violates pw r}
   \<and> distinct (errors (validatePassword pw))
   \<and> ((\<exists>r. violates pw r) \<longrightarrow> \<not> valid (validatePassword pw))"
proof -
  have a: "set (errors (validatePassword pw)) = rule_message ` {r. violates pw r}"
    using errors_mem [of _ pw] by blast
  have c: "(\<exists>r. violates pw r) \<longrightarrow> \<not> valid (validatePassword pw)"
  proof
    assume "\<exists>r. violates pw r"
    then obtain r where "violates pw r" ..
    then have "rule_message r \<in> set (errors (validatePassword pw))"
      using errors_mem by blast
    then show "\<not> valid (validatePassword pw)"
      by (auto simp: valid_iff)
  qed
  from a errors_distinct c show ?thesis by blast
qed

text \<open>
  C8 at "Abcdefgh1": too short and without a special character, and these two rules are
  what is reported.
\<close>

theorem validatePassword_reports_violations_witness:
  "(\<exists>r. violates ''Abcdefgh1'' r)
   \<and> errors (validatePassword ''Abcdefgh1'') =
       [''Password must be at least 12 characters long'',
        ''Password must contain at least one special character (@$!%*?&)'']
   \<and> \<not> valid (validatePassword ''Abcdefgh1'')"
proof -
  have "violates ''Abcdefgh1'' MinLength" by simp
  then have e: "\<exists>r. violates ''Abcdefgh1'' r" ..
  have "errors (validatePassword ''Abcdefgh1'') =
       [''Password must be at least 12 characters long'',
        ''Password must contain at least one special character (@$!%*?&)'']"
    by code_simp
  with e validatePassword_reports_violations [of "''Abcdefgh1''"] show ?thesis by blast
qed

section \<open>Login throttle\<close>

lemma recordAttempt_open:
  "is_open t i m \<Longrightarrow> recordAttempt t i m i = Some \<lparr>count = 1, timestamp = t\<rparr>"
  by (auto simp: is_open_def recordAttempt_def split: option.splits)

lemma recordAttempt_within:
  "m i = Some r \<Longrightarrow> t - timestamp r \<le> lockoutDuration \<Longrightarrow>
   recordAttempt t i m i = Some \<lparr>count = count r + 1, timestamp = t\<rparr>"
  by (simp add: recordAttempt_def)

text \<open>Failures that each fall within the window of the one before add up.\<close>

lemma recordAttempts_within:
  "m i = Some r \<Longrightarrow> within_window (timestamp r) ts \<Longrightarrow>
   recordAttempts ts i m i
     = Some \<lparr>count = count r + int (length ts), timestamp = last (timestamp r # ts)\<rparr>"
proof (induction ts arbitrary: m r)
  case Nil
  then show ?case by simp
next
  case (Cons t ts)
  from Cons.prems have w: "t - timestamp r \<le> lockoutDuration" and ww: "within_window t ts"
    by simp_all
  let ?r = "\<lparr>count = count r + 1, timestamp = t\<rparr>"
  have s: "recordAttempt t i m i = Some ?r"
    using Cons.prems(1) w by (rule recordAttempt_within)
  have "within_window (timestamp ?r) ts" using ww by simp
  from Cons.IH[of "recordAttempt t i m" "?r", OF s this] show ?case by simp
qed

lemma recordAttempts_fresh:
  assumes "is_open t i m" and "within_window t ts"
  shows "recordAttempts (t # ts) i m i
     = Some \<lparr>count = int (length (t # ts)), timestamp = last (t # ts)\<rparr>"
proof -
  let ?r = "\<lparr>count = 1, timestamp = t\<rparr>"
  have s: "recordAttempt t i m i = Some ?r" using assms(1) by (rule recordAttempt_open)
  have "within_window (timestamp ?r) ts" using assms(2) by simp
  from recordAttempts_within[of "recordAttempt t i m" "i" "?r" "ts", OF s this]
  show ?thesis by simp
qed

lemma isLocked_within:
  "m i = Some r \<Longrightarrow> now - timestamp r \<le> lockoutDuration \<Longrightarrow>
   isLocked now i m = (count r \<ge> maxAttempts, m)"
  by (simp add: isLocked_def)

lemma isLocked_expired:
  "m i = Some r \<Longrightarrow> now - timestamp r > lockoutDuration \<Longrightarrow>
   isLocked now i m = (False, m(i := None))"
  by (simp add: isLocked_def)

lemma isLocked_below:
  "m i = Some r \<Longrightarrow> count r < maxAttempts \<Longrightarrow> \<not> fst (isLocked now i m)"
  by (simp add: isLocked_def)

lemma locked_after_maxAttempts:
  assumes "is_open t1 i m" and "within_window t1 ts"
    and "int (length (t1 # ts)) = maxAttempts"
    and "now - last (t1 # ts) \<le> lockoutDuration"
  shows "isLocked now i (recordAttempts (t1 # ts) i m) = (True, recordAttempts (t1 # ts) i m)"
proof -
  let ?m = "recordAttempts (t1 # ts) i m"
  let ?r = "\<lparr>count = int (length (t1 # ts)), timestamp = last (t1 # ts)\<rparr>"
  have rec: "?m i = Some ?r"
    using assms(1,2) by (rule recordAttempts_fresh)
  have "now - timestamp ?r \<le> lockoutDuration" using assms(4) by simp
  from isLocked_within[of "?m" "i" "?r" "now", OF rec this] show ?thesis
    using assms(3) by simp
qed

text \<open>
  C4. Take an identifier whose state is open at \<open>t1\<close>, and record \<open>maxAttempts\<close> failures
  for it at \<open>t1\<close> and the readings \<open>ts\<close>, each within the lockout window of the one before.
  Then \<open>isLocked\<close> is true at every reading within the window of the last failure; and a
  further failure recorded after the window has elapsed leaves a record with count 1, on
  which \<open>isLocked\<close> is false at every reading. Moreover a record with a count below
  \<open>maxAttempts\<close> is never locked, and \<open>isLocked\<close> on an expired record returns false and
  deletes the record.
\<close>

theorem throttle_locks_after_maxAttempts:
  assumes fresh: "is_open t1 identifier m"
    and window: "within_window t1 ts"
    and n: "int (length (t1 # ts)) = maxAttempts"
  shows "(now - last (t1 # ts) \<le> lockoutDuration \<longrightarrow>
            fst (isLocked now identifier (recordAttempts (t1 # ts) identifier m)))
       \<and> (later - last (t1 # ts) > lockoutDuration \<longrightarrow>
            recordAttempt later identifier (recordAttempts (t1 # ts) identifier m) identifier
              = Some \<lparr>count = 1, timestamp = later\<rparr>
            \<and> \<not> fst (isLocked t identifier
                        (recordAttempt later identifier (recordAttempts (t1 # ts) identifier m))))
       \<and> (m' identifier = Some r' \<and> count r' < maxAttempts \<longrightarrow>
            \<not> fst (isLocked t' identifier m'))
       \<and> (m'' identifier = Some r'' \<and> t'' - timestamp r'' > lockoutDuration \<longrightarrow>
            isLocked t'' identifier m'' = (False, m''(identifier := None)))"
proof -
  let ?m = "recordAttempts (t1 # ts) identifier m"
  let ?r = "\<lparr>count = int (length (t1 # ts)), timestamp = last (t1 # ts)\<rparr>"
  have rec: "?m identifier = Some ?r"
    using fresh window by (rule recordAttempts_fresh)
  have a: "now - last (t1 # ts) \<le> lockoutDuration \<longrightarrow> fst (isLocked now identifier ?m)"
    using locked_after_maxAttempts[OF fresh window n] by simp
  have b: "later - last (t1 # ts) > lockoutDuration \<longrightarrow>
            recordAttempt later identifier ?m identifier = Some \<lparr>count = 1, timestamp = later\<rparr>
            \<and> \<not> fst (isLocked t identifier (recordAttempt later identifier ?m))"
  proof
    assume "later - last (t1 # ts) > lockoutDuration"
    then have "is_open later identifier ?m" using rec by (simp add: is_open_def)
    then have one: "recordAttempt later identifier ?m identifier
                      = Some \<lparr>count = 1, timestamp = later\<rparr>"
      by (rule recordAttempt_open)
    have "\<not> fst (isLocked t identifier (recordAttempt later identifier ?m))"
      using isLocked_below[of "recordAttempt later identifier ?m" "identifier"
                              "\<lparr>count = 1, timestamp = later\<rparr>" "t"] one
      by (simp add: maxAttempts_def)
    with one show "recordAttempt later identifier ?m identifier
                      = Some \<lparr>count = 1, timestamp = later\<rparr>
            \<and> \<not> fst (isLocked t identifier (recordAttempt later identifier ?m))" ..
  qed
  have c: "m' identifier = Some r' \<and> count r' < maxAttempts \<longrightarrow>
            \<not> fst (isLocked t' identifier m')"
    using isLocked_below by blast
  have d: "m'' identifier = Some r'' \<and> t'' - timestamp r'' > lockoutDuration \<longrightarrow>
            isLocked t'' identifier m'' = (False, m''(identifier := None))"
    using isLocked_expired by blast
  from a b c d show ?thesis by blast
qed

text \<open>
  C4 on the empty limiter: five failures one second apart lock the identifier; a sixth
  one after the window starts again at count 1; a record with count 2 is not locked; an
  expired record is deleted.
\<close>

theorem throttle_locks_after_maxAttempts_witness:
  "is_open 1000 ''a@x.com'' Map.empty
   \<and> within_window 1000 [2000, 3000, 4000, 5000]
   \<and> int (length [1000, 2000, 3000, 4000, 5000 :: int]) = maxAttempts
   \<and> fst (isLocked 6000 ''a@x.com''
            (recordAttempts [1000, 2000, 3000, 4000, 5000] ''a@x.com'' Map.empty))
   \<and> recordAttempt 905001 ''a@x.com''
        (recordAttempts [1000, 2000, 3000, 4000, 5000] ''a@x.com'' Map.empty) ''a@x.com''
       = Some \<lparr>count = 1, timestamp = 905001\<rparr>
   \<and> \<not> fst (isLocked 905002 ''a@x.com''
              (recordAttempt 905001 ''a@x.com''
                 (recordAttempts [1000, 2000, 3000, 4000, 5000] ''a@x.com'' Map.empty)))
   \<and> \<not> fst (isLocked 2000 ''a@x.com'' [''a@x.com'' \<mapsto> \<lparr>count = 2, timestamp = 1000\<rparr>])
   \<and> isLocked 901001 ''a@x.com'' [''a@x.com'' \<mapsto> \<lparr>count = 7, timestamp = 1000\<rparr>]
       = (False, [''a@x.com'' \<mapsto> \<lparr>count = 7, timestamp = 1000\<rparr>](''a@x.com'' := None))"
proof -
  have h1: "is_open 1000 ''a@x.com'' Map.empty" by (simp add: is_open_def)
  have h2: "within_window 1000 [2000, 3000, 4000, 5000]" by (simp add: lockoutDuration_def)
  have h3: "int (length [1000, 2000, 3000, 4000, 5000 :: int]) = maxAttempts"
    by (simp add: maxAttempts_def)
  from throttle_locks_after_maxAttempts [OF h1 h2 h3, of 6000 905001 905002
      "[''a@x.com'' \<mapsto> \<lparr>count = 2, timestamp = 1000\<rparr>]" "\<lparr>count = 2, timestamp = 1000\<rparr>" 2000
      "[''a@x.com'' \<mapsto> \<lparr>count = 7, timestamp = 1000\<rparr>]" "\<lparr>count = 7, timestamp = 1000\<rparr>" 901001]
  show ?thesis using h1 h2 h3 by (simp add: lockoutDuration_def maxAttempts_def)
qed

section \<open>Token service\<close>

lemma generateAccessToken_Signed:
  "generateAccessToken svc now u =
     Signed [(''userId'', JStr (id u)), (''email'', JStr (email u)),
             (''role'', JStr (role_value (role u))), (''iat'', JNum (now div 1000)),
             (''exp'', JNum (now div 1000 + getExpirySeconds (jwtExpire svc)))]
            (jwtSecret svc)"
  by (simp add: generateAccessToken_def jwt_sign_def)

lemma generateRefreshToken_key:
  "\<exists>payload. generateRefreshToken svc now v = Signed payload (refreshSecret svc)"
  by (simp add: generateRefreshToken_def jwt_sign_def)

lemma jwt_verify_wrong_key:
  "key \<noteq> secret \<Longrightarrow> jwt_verify now (Signed payload key) secret = None"
  by (simp add: jwt_verify_def)

text \<open>The secrets of a constructed service are never empty.\<close>

lemma JWTService_secrets: "jwtSecret (JWTService env) \<noteq> [] \<and> refreshSecret (JWTService env) \<noteq> []"
  by (simp add: JWTService_def or_default_def split: option.splits)

text \<open>
  C7. For every subject, an access token verified while the clock (in seconds) is below
  its \<^verbatim>\<open>exp\<close> yields claims whose \<^verbatim>\<open>userId\<close>, \<^verbatim>\<open>email\<close> and \<^verbatim>\<open>role\<close> are those issued;
  once the clock has reached \<^verbatim>\<open>exp\<close>, verification of the same token returns null.
\<close>

theorem access_token_round_trip:
  "(now' div 1000 < now div 1000 + getExpirySeconds (jwtExpire (JWTService env)) \<longrightarrow>
      (\<exists>claims. verifyAccessToken (JWTService env) now'
                   (generateAccessToken (JWTService env) now u) = Some claims
         \<and> field claims ''userId'' = JStr (id u)
         \<and> field claims ''email'' = JStr (email u)
         \<and> field claims ''role'' = JStr (role_value (role u))))
   \<and> (now' div 1000 \<ge> now div 1000 + getExpirySeconds (jwtExpire (JWTService env)) \<longrightarrow>
        verifyAccessToken (JWTService env) now'
          (generateAccessToken (JWTService env) now u) = None)"
  by (simp add: generateAccessToken_Signed verifyAccessToken_def jwt_verify_def field_def
        claim_ok_def)

text \<open>
  C7 with the default lifetime of 24 hours: a token issued at second 5 verifies one
  second later and no longer verifies at second 86405.
\<close>

theorem access_token_round_trip_witness:
  "6000 div 1000 < (5000::int) div 1000 + getExpirySeconds (jwtExpire (JWTService example_env))
   \<and> (\<exists>claims. verifyAccessToken (JWTService example_env) 6000
         (generateAccessToken (JWTService example_env) 5000
            \<lparr>id = ''k3j9x2m1q'', email = ''a@x.com'', role = USUARIO, accessLevel = Level_READ\<rparr>)
         = Some claims
       \<and> field claims ''userId'' = JStr ''k3j9x2m1q''
       \<and> field claims ''email'' = JStr ''a@x.com''
       \<and> field claims ''role'' = JStr ''USUARIO'')
   \<and> (86405000::int) div 1000 \<ge> 5000 div 1000 + getExpirySeconds (jwtExpire (JWTService example_env))
   \<and> verifyAccessToken (JWTService example_env) 86405000
         (generateAccessToken (JWTService example_env) 5000
            \<lparr>id = ''k3j9x2m1q'', email = ''a@x.com'', role = USUARIO, accessLevel = Level_READ\<rparr>)
       = None"
proof -
  have l: "getExpirySeconds (jwtExpire (JWTService example_env)) = 86400" by code_simp
  show ?thesis
    using access_token_round_trip [of 6000 5000 example_env
        "\<lparr>id = ''k3j9x2m1q'', email = ''a@x.com'', role = USUARIO, accessLevel = Level_READ\<rparr>"]
      access_token_round_trip [of 86405000 5000 example_env
        "\<lparr>id = ''k3j9x2m1q'', email = ''a@x.com'', role = USUARIO, accessLevel = Level_READ\<rparr>"]
    by (simp add: l)
qed

text \<open>
  C2, as stated, fails. A token that carries no \<^verbatim>\<open>type\<close> at all and is signed with the
  refresh secret is accepted by \<open>verifyRefreshToken\<close>; and when both secrets are the string
  "k", the access token issued for Ana is accepted by \<open>verifyRefreshToken\<close> and the refresh
  token issued for her is accepted by \<open>verifyAccessToken\<close>.
\<close>

theorem verifyRefreshToken_type_counterexample:
  "field [(''userId'', JStr ''k3j9x2m1q'')] ''type'' = Undefined
   \<and> verifyRefreshToken (JWTService example_env) 0
        (Signed [(''userId'', JStr ''k3j9x2m1q'')] (refreshSecret (JWTService example_env)))
       = Some [(''userId'', JStr ''k3j9x2m1q'')]
   \<and> verifyRefreshToken
        (JWTService \<lparr>JWT_SECRET = Some ''k'', REFRESH_TOKEN_SECRET = Some ''k'',
                     JWT_EXPIRE = None, REFRESH_TOKEN_EXPIRE = None\<rparr>) 6000
        (generateAccessToken
           (JWTService \<lparr>JWT_SECRET = Some ''k'', REFRESH_TOKEN_SECRET = Some ''k'',
                        JWT_EXPIRE = None, REFRESH_TOKEN_EXPIRE = None\<rparr>) 5000
           \<lparr>id = ''k3j9x2m1q'', email = ''a@x.com'', role = USUARIO, accessLevel = Level_READ\<rparr>)
       = Some [(''userId'', JStr ''k3j9x2m1q'')]
   \<and> verifyAccessToken
        (JWTService \<lparr>JWT_SECRET = Some ''k'', REFRESH_TOKEN_SECRET = Some ''k'',
                     JWT_EXPIRE = None, REFRESH_TOKEN_EXPIRE = None\<rparr>) 6000
        (generateRefreshToken
           (JWTService \<lparr>JWT_SECRET = Some ''k'', REFRESH_TOKEN_SECRET = Some ''k'',
                        JWT_EXPIRE = None, REFRESH_TOKEN_EXPIRE = None\<rparr>) 5000
           (JStr ''k3j9x2m1q''))
       = Some [(''userId'', JStr ''k3j9x2m1q''), (''type'', JStr ''refresh''),
               (''iat'', JNum 5), (''exp'', JNum 604805)]"
  by code_simp

text \<open>
  What \<open>verifyRefreshToken\<close> accepts: a signed token whose signature verifies under the
  refresh secret and whose \<^verbatim>\<open>nbf\<close> and \<^verbatim>\<open>exp\<close> claims, where present, admit the clock. The
  \<^verbatim>\<open>type\<close> of the token plays no part.
\<close>

lemma verifyRefreshToken_accepts_iff:
  "verifyRefreshToken svc now (Signed payload key) \<noteq> None \<longleftrightarrow>
      key = refreshSecret svc
      \<and> claim_ok (field payload ''nbf'') (\<lambda>nbf. \<not> nbf > now div 1000)
      \<and> claim_ok (field payload ''exp'') (\<lambda>exp. \<not> now div 1000 \<ge> exp)"
  by (simp add: verifyRefreshToken_def jwt_verify_def Let_def split: option.splits)

text \<open>
  C2, amended. \<open>verifyRefreshToken\<close> returns null for every token that is malformed or whose
  signature does not verify under the refresh secret, whatever type it declares; every
  token issued by \<open>generateRefreshToken\<close> carries the type "refresh"; and when the access
  secret and the refresh secret differ, \<open>verifyAccessToken\<close> returns null on every token
  issued by \<open>generateRefreshToken\<close>, and \<open>verifyRefreshToken\<close> returns null on every token
  issued by \<open>generateAccessToken\<close>.
\<close>

theorem token_classes_separated_by_secret:
  "(key \<noteq> refreshSecret (JWTService env) \<longrightarrow>
      verifyRefreshToken (JWTService env) now (Signed payload key) = None)
   \<and> verifyRefreshToken (JWTService env) now Malformed = None
   \<and> field (token_payload (generateRefreshToken (JWTService env) t0 v)) ''type'' = JStr ''refresh''
   \<and> (jwtSecret (JWTService env) \<noteq> refreshSecret (JWTService env) \<longrightarrow>
        verifyAccessToken (JWTService env) now' (generateRefreshToken (JWTService env) t0 v) = None
        \<and> verifyRefreshToken (JWTService env) now' (generateAccessToken (JWTService env) t0 u) = None)"
proof -
  let ?svc = "JWTService env"
  have a: "key \<noteq> refreshSecret ?svc \<longrightarrow> verifyRefreshToken ?svc now (Signed payload key) = None"
    by (simp add: verifyRefreshToken_def jwt_verify_wrong_key)
  have m: "verifyRefreshToken ?svc now Malformed = None"
    by (simp add: verifyRefreshToken_def jwt_verify_def)
  have t: "field (token_payload (generateRefreshToken ?svc t0 v)) ''type'' = JStr ''refresh''"
    by (simp add: generateRefreshToken_def jwt_sign_def token_payload_def field_def)
  have b: "jwtSecret ?svc \<noteq> refreshSecret ?svc \<longrightarrow>
        verifyAccessToken ?svc now' (generateRefreshToken ?svc t0 v) = None
        \<and> verifyRefreshToken ?svc now' (generateAccessToken ?svc t0 u) = None"
  proof
    assume ne: "jwtSecret ?svc \<noteq> refreshSecret ?svc"
    obtain p where p: "generateRefreshToken ?svc t0 v = Signed p (refreshSecret ?svc)"
      using generateRefreshToken_key by blast
    have 1: "verifyAccessToken ?svc now' (generateRefreshToken ?svc t0 v) = None"
      unfolding p verifyAccessToken_def using ne by (intro jwt_verify_wrong_key) simp
    have 2: "verifyRefreshToken ?svc now' (generateAccessToken ?svc t0 u) = None"
      unfolding generateAccessToken_Signed verifyRefreshToken_def using ne
      by (simp add: jwt_verify_wrong_key)
    from 1 2 show "verifyAccessToken ?svc now' (generateRefreshToken ?svc t0 v) = None
        \<and> verifyRefreshToken ?svc now' (generateAccessToken ?svc t0 u) = None" ..
  qed
  from a m t b show ?thesis by blast
qed

text \<open>
  The amended C2 with the default secrets, which differ: a token signed with the access
  secret is refused by \<open>verifyRefreshToken\<close>, the refresh token issued at login is refused
  as an access token, and the access token is refused as a refresh token.
\<close>

theorem token_classes_separated_by_secret_witness:
  "jwtSecret (JWTService example_env) \<noteq> refreshSecret (JWTService example_env)
   \<and> verifyRefreshToken (JWTService example_env) 6000
        (Signed [(''userId'', JStr ''k3j9x2m1q''), (''type'', JStr ''refresh'')]
           (jwtSecret (JWTService example_env))) = None
   \<and> verifyAccessToken (JWTService example_env) 6000
        (generateRefreshToken (JWTService example_env) 5000
           (JObj [(''id'', JStr ''k3j9x2m1q''), (''email'', JStr ''a@x.com'')])) = None
   \<and> verifyRefreshToken (JWTService example_env) 6000
        (generateAccessToken (JWTService example_env) 5000
           \<lparr>id = ''k3j9x2m1q'', email = ''a@x.com'', role = USUARIO, accessLevel = Level_READ\<rparr>)
       = None"
proof -
  have ne: "jwtSecret (JWTService example_env) \<noteq> refreshSecret (JWTService example_env)"
    by (simp add: JWTService_def example_env_def or_default_def)
  from token_classes_separated_by_secret [of "jwtSecret (JWTService example_env)" example_env
      6000 "[(''userId'', JStr ''k3j9x2m1q''), (''type'', JStr ''refresh'')]" 5000
      "JObj [(''id'', JStr ''k3j9x2m1q''), (''email'', JStr ''a@x.com'')]" 6000
      "\<lparr>id = ''k3j9x2m1q'', email = ''a@x.com'', role = USUARIO, accessLevel = Level_READ\<rparr>"] ne
  show ?thesis by blast
qed

section \<open>Request pipeline\<close>

lemma verify_generated:
  "verifyAccessToken svc now' (generateAccessToken svc now u) = Some decoded \<Longrightarrow>
   decoded = token_payload (generateAccessToken svc now u)"
  by (simp add: generateAccessToken_Signed verifyAccessToken_def jwt_verify_def
        token_payload_def Let_def split: if_splits)

text \<open>
  C3. The payload of every token that \<open>generateAccessToken\<close> issues holds no property
  \<^verbatim>\<open>accessLevel\<close>. So whenever \<open>authMiddleware\<close> lets such a token pass, the \<^verbatim>\<open>user\<close> it
  attaches to the request has \<^verbatim>\<open>accessLevel\<close> undefined, and for every required level
  \<open>accessLevelMiddleware\<close> does not answer 403 on that request: it calls \<^verbatim>\<open>next()\<close>.
\<close>

theorem access_token_carries_no_accessLevel:
  "\<not> props_mention ''accessLevel'' (token_payload (generateAccessToken (JWTService env) now u))
   \<and> (authMiddleware (JWTService env) now' (Some (generateAccessToken (JWTService env) now u)) req_user
        = (Next, r) \<longrightarrow>
      (\<exists>ctx. r = Some ctx \<and> field ctx ''accessLevel'' = Undefined)
      \<and> accessLevelMiddleware str_less requiredLevel r \<noteq> Respond 403 ''Insufficient access level''
      \<and> accessLevelMiddleware str_less requiredLevel r = Next)"
proof -
  let ?svc = "JWTService env"
  let ?tok = "generateAccessToken ?svc now u"
  have a: "\<not> props_mention ''accessLevel'' (token_payload ?tok)"
    by (simp add: generateAccessToken_Signed token_payload_def)
  have b: "authMiddleware ?svc now' (Some ?tok) req_user = (Next, r) \<longrightarrow>
      (\<exists>ctx. r = Some ctx \<and> field ctx ''accessLevel'' = Undefined)
      \<and> accessLevelMiddleware str_less requiredLevel r \<noteq> Respond 403 ''Insufficient access level''
      \<and> accessLevelMiddleware str_less requiredLevel r = Next"
  proof
    assume auth: "authMiddleware ?svc now' (Some ?tok) req_user = (Next, r)"
    then obtain decoded where v: "verifyAccessToken ?svc now' ?tok = Some decoded"
      and r: "r = Some [(''id'', field decoded ''id''), (''email'', field decoded ''email''),
                        (''role'', field decoded ''role''),
                        (''accessLevel'', field decoded ''accessLevel'')]"
      by (auto simp: authMiddleware_def split: option.splits)
    from verify_generated[OF v] have "field decoded ''accessLevel'' = Undefined"
      by (simp add: generateAccessToken_Signed token_payload_def field_def)
    with r have ctx: "\<exists>ctx. r = Some ctx \<and> field ctx ''accessLevel'' = Undefined"
      by (simp add: field_def)
    then have n: "accessLevelMiddleware str_less requiredLevel r = Next"
      by (auto simp: accessLevelMiddleware_def js_less_def)
    from ctx n show "(\<exists>ctx. r = Some ctx \<and> field ctx ''accessLevel'' = Undefined)
      \<and> accessLevelMiddleware str_less requiredLevel r \<noteq> Respond 403 ''Insufficient access level''
      \<and> accessLevelMiddleware str_less requiredLevel r = Next" by simp
  qed
  from a b show ?thesis ..
qed

text \<open>
  C3 on the token issued for Ana, whose access level is READ: the request passes
  \<open>authMiddleware\<close>, and \<open>accessLevelMiddleware\<close> with the required level ADMIN lets it
  through.
\<close>

theorem access_token_carries_no_accessLevel_witness:
  "authMiddleware (JWTService example_env) 6000
     (Some (generateAccessToken (JWTService example_env) 5000
        \<lparr>id = ''k3j9x2m1q'', email = ''a@x.com'', role = USUARIO, accessLevel = Level_READ\<rparr>))
     None
     = (Next, Some [(''id'', Undefined), (''email'', JStr ''a@x.com''),
                    (''role'', JStr ''USUARIO''), (''accessLevel'', Undefined)])
   \<and> accessLevelMiddleware (\<lambda>s n. False) Level_ADMIN
        (Some [(''id'', Undefined), (''email'', JStr ''a@x.com''),
               (''role'', JStr ''USUARIO''), (''accessLevel'', Undefined)]) = Next"
proof -
  have h: "authMiddleware (JWTService example_env) 6000
     (Some (generateAccessToken (JWTService example_env) 5000
        \<lparr>id = ''k3j9x2m1q'', email = ''a@x.com'', role = USUARIO, accessLevel = Level_READ\<rparr>))
     None
     = (Next, Some [(''id'', Undefined), (''email'', JStr ''a@x.com''),
                    (''role'', JStr ''USUARIO''), (''accessLevel'', Undefined)])"
    by code_simp
  from access_token_carries_no_accessLevel [of example_env 5000
      "\<lparr>id = ''k3j9x2m1q'', email = ''a@x.com'', role = USUARIO, accessLevel = Level_READ\<rparr>"
      6000 None
      "Some [(''id'', Undefined), (''email'', JStr ''a@x.com''),
             (''role'', JStr ''USUARIO''), (''accessLevel'', Undefined)]"
      "\<lambda>s n. False" Level_ADMIN] h
  show ?thesis by blast
qed

section \<open>Authentication service\<close>

subsection \<open>Refresh\<close>

text \<open>
  What \<open>verifyRefreshToken\<close> returns has the single property \<^verbatim>\<open>userId\<close>, so the \<^verbatim>\<open>email\<close>
  that \<open>refreshAccessToken\<close> reads from it is undefined and the lookup finds no user,
  whatever the map holds.
\<close>

lemma verifyRefreshToken_shape:
  "verifyRefreshToken svc now tok = Some decoded \<Longrightarrow> field decoded ''email'' = Undefined"
  by (auto simp: verifyRefreshToken_def field_def split: option.splits)

lemma refreshAccessToken_not_found:
  "verifyRefreshToken svc now tok = Some decoded \<Longrightarrow>
   refreshAccessToken svc now tok s = Inl (Error ''User not found'')"
  by (frule verifyRefreshToken_shape) (simp add: refreshAccessToken_def users_get_def)

lemma refreshAccessToken_invalid:
  "verifyRefreshToken svc now tok = None \<Longrightarrow>
   refreshAccessToken svc now tok s = Inl (Error ''Invalid refresh token'')"
  by (simp add: refreshAccessToken_def)

lemma refreshAccessToken_never_returns: "refreshAccessToken svc now tok s \<noteq> Inr v"
  by (cases "verifyRefreshToken svc now tok")
     (simp_all add: refreshAccessToken_invalid refreshAccessToken_not_found)

text \<open>
  C1 (the code departs from the claim). Ana is registered and logs in at second 1 with
  her password; one second later the refresh token she was given verifies, her record is
  in the map under her email, and \<open>refreshAccessToken\<close> on that token fails with
  "User not found" where the claim has it return a new access token.
\<close>

theorem refreshAccessToken_fails_for_registered_user:
  "(case fst (login example_bcrypt (JWTService example_env) 1000 ''a@x.com'' ''Str0ng!Pass123''
               example_state) of
      Inl e \<Rightarrow> False
    | Inr response \<Rightarrow>
        verifyRefreshToken (JWTService example_env) 2000 (refreshToken response)
          = Some [(''userId'', JObj [(''id'', JStr ''k3j9x2m1q''), (''email'', JStr ''a@x.com'')])]
        \<and> map_option subject.id (map_of (users example_state) ''a@x.com'') = Some ''k3j9x2m1q''
        \<and> refreshAccessToken (JWTService example_env) 2000 (refreshToken response) example_state
          = Inl (Error ''User not found''))"
  by code_simp

subsection \<open>Login\<close>

lemma recordAttempt_after_isLocked:
  "recordAttempt now e (snd (isLocked now e m)) = recordAttempt now e m"
  by (auto simp: isLocked_def recordAttempt_def split: option.splits)

lemma isLocked_true_keeps: "fst (isLocked now e m) \<Longrightarrow> snd (isLocked now e m) = m"
  by (auto simp: isLocked_def split: option.splits if_splits)

lemma login_locked:
  assumes "email_in \<noteq> []" and "password_in \<noteq> []"
    and "fst (isLocked now email_in (loginAttempts s))"
  shows "login bc svc now email_in password_in s =
           (Inl (Error ''Account locked due to too many failed login attempts. Try again in 15 minutes.''), s)"
proof -
  obtain locked m where lm: "isLocked now email_in (loginAttempts s) = (locked, m)"
    by (cases "isLocked now email_in (loginAttempts s)")
  with assms(3) have l: "locked" by simp
  from isLocked_true_keeps[OF assms(3)] lm have m: "m = loginAttempts s" by simp
  show ?thesis using assms(1,2) l m by (simp add: login_def lm)
qed

lemma login_unknown:
  assumes "email_in \<noteq> []" and "password_in \<noteq> []"
    and "\<not> fst (isLocked now email_in (loginAttempts s))"
    and "map_of (users s) email_in = None"
  shows "login bc svc now email_in password_in s =
           (Inl (Error ''Invalid email or password''),
            s\<lparr>loginAttempts := recordAttempt now email_in (loginAttempts s)\<rparr>)"
proof -
  obtain locked m where lm: "isLocked now email_in (loginAttempts s) = (locked, m)"
    by (cases "isLocked now email_in (loginAttempts s)")
  with assms(3) have l: "\<not> locked" by simp
  have r: "recordAttempt now email_in m = recordAttempt now email_in (loginAttempts s)"
    using recordAttempt_after_isLocked[of now email_in "loginAttempts s"] lm by simp
  show ?thesis using assms(1,2,4) l by (simp add: login_def lm r)
qed

lemma login_wrong_password:
  assumes "email_in \<noteq> []" and "password_in \<noteq> []"
    and "\<not> fst (isLocked now email_in (loginAttempts s))"
    and "map_of (users s) email_in = Some u"
    and "bcrypt_compare bc password_in (password u) = Some False"
  shows "login bc svc now email_in password_in s =
           (Inl (Error ''Invalid email or password''),
            s\<lparr>loginAttempts := recordAttempt now email_in (loginAttempts s)\<rparr>)"
proof -
  obtain locked m where lm: "isLocked now email_in (loginAttempts s) = (locked, m)"
    by (cases "isLocked now email_in (loginAttempts s)")
  with assms(3) have l: "\<not> locked" by simp
  have r: "recordAttempt now email_in m = recordAttempt now email_in (loginAttempts s)"
    using recordAttempt_after_isLocked[of now email_in "loginAttempts s"] lm by simp
  show ?thesis using assms(1,2,4,5) l by (simp add: login_def lm r comparePassword_def)
qed

text \<open>
  C5. When the limiter is locked for a (present) email, \<open>login\<close> with any (present)
  password fails with the lockout error and leaves the state as it was, for every map of
  users \<open>us\<close> and every behaviour \<open>bc\<close> of the password comparison: neither is consulted,
  and no failure is recorded. In particular, after \<open>maxAttempts\<close> failures recorded within
  the window for a registered email, the next login within the window fails with the
  lockout error although the password is the right one.
\<close>

theorem login_locked_before_credentials:
  assumes "email_in \<noteq> []" and "password_in \<noteq> []"
  shows "(fst (isLocked now email_in (loginAttempts s)) \<longrightarrow>
            login bc svc now email_in password_in (s\<lparr>users := us\<rparr>) =
              (Inl (Error ''Account locked due to too many failed login attempts. Try again in 15 minutes.''),
               s\<lparr>users := us\<rparr>))
       \<and> (is_open t1 email_in (loginAttempts s) \<and> within_window t1 ts
          \<and> int (length (t1 # ts)) = maxAttempts \<and> now - last (t1 # ts) \<le> lockoutDuration
          \<and> map_of (users s) email_in = Some u
          \<and> bcrypt_compare bc password_in (password u) = Some True \<longrightarrow>
            login bc svc now email_in password_in
              (s\<lparr>loginAttempts := recordAttempts (t1 # ts) email_in (loginAttempts s)\<rparr>) =
              (Inl (Error ''Account locked due to too many failed login attempts. Try again in 15 minutes.''),
               s\<lparr>loginAttempts := recordAttempts (t1 # ts) email_in (loginAttempts s)\<rparr>))"
proof -
  have a: "fst (isLocked now email_in (loginAttempts s)) \<longrightarrow>
            login bc svc now email_in password_in (s\<lparr>users := us\<rparr>) =
              (Inl (Error ''Account locked due to too many failed login attempts. Try again in 15 minutes.''),
               s\<lparr>users := us\<rparr>)"
  proof
    assume "fst (isLocked now email_in (loginAttempts s))"
    then have "fst (isLocked now email_in (loginAttempts (s\<lparr>users := us\<rparr>)))" by simp
    with assms show "login bc svc now email_in password_in (s\<lparr>users := us\<rparr>) =
              (Inl (Error ''Account locked due to too many failed login attempts. Try again in 15 minutes.''),
               s\<lparr>users := us\<rparr>)"
      by (rule login_locked)
  qed
  let ?s = "s\<lparr>loginAttempts := recordAttempts (t1 # ts) email_in (loginAttempts s)\<rparr>"
  have b: "is_open t1 email_in (loginAttempts s) \<and> within_window t1 ts
          \<and> int (length (t1 # ts)) = maxAttempts \<and> now - last (t1 # ts) \<le> lockoutDuration
          \<and> map_of (users s) email_in = Some u
          \<and> bcrypt_compare bc password_in (password u) = Some True \<longrightarrow>
            login bc svc now email_in password_in ?s =
              (Inl (Error ''Account locked due to too many failed login attempts. Try again in 15 minutes.''),
               ?s)"
  proof
    assume h: "is_open t1 email_in (loginAttempts s) \<and> within_window t1 ts
          \<and> int (length (t1 # ts)) = maxAttempts \<and> now - last (t1 # ts) \<le> lockoutDuration
          \<and> map_of (users s) email_in = Some u
          \<and> bcrypt_compare bc password_in (password u) = Some True"
    then have "fst (isLocked now email_in (recordAttempts (t1 # ts) email_in (loginAttempts s)))"
      using locked_after_maxAttempts[of t1 email_in "loginAttempts s" ts now] by simp
    then have "fst (isLocked now email_in (loginAttempts ?s))" by simp
    with assms show "login bc svc now email_in password_in ?s =
              (Inl (Error ''Account locked due to too many failed login attempts. Try again in 15 minutes.''),
               ?s)"
      by (rule login_locked)
  qed
  from a b show ?thesis ..
qed

lemma example_state_user:
  "map_of (users example_state) ''a@x.com'' =
     Some \<lparr>id = ''k3j9x2m1q'', email = ''a@x.com'', role = USUARIO, accessLevel = Level_READ,
           name = ''Ana'', createdAt = 0, password = ''$2b$10$Str0ng!Pass123''\<rparr>"
  by code_simp

text \<open>
  C5 in the scenario of the specification: after Ana's five logins with a wrong password
  the limiter is locked for her email at second 6, and her sixth login, with the right
  password, fails with the lockout error and changes nothing. The same holds with the
  five failures recorded in the limiter directly.
\<close>

theorem login_locked_before_credentials_witness:
  "''a@x.com'' \<noteq> [] \<and> ''Str0ng!Pass123'' \<noteq> []
   \<and> fst (isLocked 6000 ''a@x.com'' (loginAttempts example_failures))
   \<and> bcrypt_compare example_bcrypt ''Str0ng!Pass123'' ''$2b$10$Str0ng!Pass123'' = Some True
   \<and> login example_bcrypt (JWTService example_env) 6000 ''a@x.com'' ''Str0ng!Pass123''
        example_failures =
        (Inl (Error ''Account locked due to too many failed login attempts. Try again in 15 minutes.''),
         example_failures)
   \<and> is_open 1000 ''a@x.com'' (loginAttempts example_state)
   \<and> within_window 1000 [2000, 3000, 4000, 5000]
   \<and> int (length [1000, 2000, 3000, 4000, 5000 :: int]) = maxAttempts
   \<and> 6000 - last [1000, 2000, 3000, 4000, 5000] \<le> lockoutDuration
   \<and> fst (login example_bcrypt (JWTService example_env) 6000 ''a@x.com'' ''Str0ng!Pass123''
        (example_state\<lparr>loginAttempts :=
           recordAttempts [1000, 2000, 3000, 4000, 5000] ''a@x.com'' (loginAttempts example_state)\<rparr>))
       = Inl (Error ''Account locked due to too many failed login attempts. Try again in 15 minutes.'')"
proof -
  have e: "''a@x.com'' \<noteq> []" and p: "''Str0ng!Pass123'' \<noteq> []" by simp_all
  have l: "fst (isLocked 6000 ''a@x.com'' (loginAttempts example_failures))" by code_simp
  have c: "bcrypt_compare example_bcrypt ''Str0ng!Pass123'' ''$2b$10$Str0ng!Pass123'' = Some True"
    by (simp add: example_bcrypt_def)
  have o: "is_open 1000 ''a@x.com'' (loginAttempts example_state)" by code_simp
  have w: "within_window 1000 [2000, 3000, 4000, 5000]" by (simp add: lockoutDuration_def)
  have n: "int (length [1000, 2000, 3000, 4000, 5000 :: int]) = maxAttempts"
    by (simp add: maxAttempts_def)
  have t: "6000 - last [1000, 2000, 3000, 4000, 5000] \<le> lockoutDuration"
    by (simp add: lockoutDuration_def)
  from login_locked_before_credentials [OF e p, of 6000 example_failures example_bcrypt
      "JWTService example_env" "users example_failures"] l
  have 1: "login example_bcrypt (JWTService example_env) 6000 ''a@x.com'' ''Str0ng!Pass123''
        example_failures =
        (Inl (Error ''Account locked due to too many failed login attempts. Try again in 15 minutes.''),
         example_failures)"
    by simp
  from login_locked_before_credentials [OF e p, of 6000 example_state example_bcrypt
      "JWTService example_env" _ 1000 "[2000, 3000, 4000, 5000]"
      "\<lparr>id = ''k3j9x2m1q'', email = ''a@x.com'', role = USUARIO, accessLevel = Level_READ,
           name = ''Ana'', createdAt = 0, password = ''$2b$10$Str0ng!Pass123''\<rparr>"]
    o w n t c example_state_user
  have 2: "fst (login example_bcrypt (JWTService example_env) 6000 ''a@x.com'' ''Str0ng!Pass123''
        (example_state\<lparr>loginAttempts :=
           recordAttempts [1000, 2000, 3000, 4000, 5000] ''a@x.com'' (loginAttempts example_state)\<rparr>))
       = Inl (Error ''Account locked due to too many failed login attempts. Try again in 15 minutes.'')"
    by simp
  from e p l c 1 o w n t 2 show ?thesis by blast
qed

text \<open>
  C6. Take a (present) email that is unknown in one state and a (present) email that is
  known in another (or the same) state, neither of them locked, and for the known one a
  password that the comparison rejects. Both logins return the error
  "Invalid email or password", the same value in both cases; each leaves the limiter with
  exactly one more failure recorded for the email at the clock reading, and the users as
  they were.
\<close>

theorem login_generic_invalid_credentials:
  assumes "unknown \<noteq> []" and "known \<noteq> []" and "pw \<noteq> []" and "pw' \<noteq> []"
    and "\<not> fst (isLocked now unknown (loginAttempts s))"
    and "\<not> fst (isLocked now known (loginAttempts s'))"
    and "map_of (users s) unknown = None"
    and "map_of (users s') known = Some u"
    and "bcrypt_compare bc pw' (password u) = Some False"
  shows "fst (login bc svc now unknown pw s) = Inl (Error ''Invalid email or password'')
       \<and> fst (login bc svc now known pw' s') = fst (login bc svc now unknown pw s)
       \<and> loginAttempts (snd (login bc svc now unknown pw s))
           = recordAttempt now unknown (loginAttempts s)
       \<and> loginAttempts (snd (login bc svc now known pw' s'))
           = recordAttempt now known (loginAttempts s')
       \<and> users (snd (login bc svc now unknown pw s)) = users s
       \<and> users (snd (login bc svc now known pw' s')) = users s'"
proof -
  have a: "login bc svc now unknown pw s =
           (Inl (Error ''Invalid email or password''),
            s\<lparr>loginAttempts := recordAttempt now unknown (loginAttempts s)\<rparr>)"
    using assms(1,3,5,7) by (rule login_unknown)
  have b: "login bc svc now known pw' s' =
           (Inl (Error ''Invalid email or password''),
            s'\<lparr>loginAttempts := recordAttempt now known (loginAttempts s')\<rparr>)"
    using assms(2,4,6,8,9) by (rule login_wrong_password)
  show ?thesis by (simp add: a b)
qed

text \<open>
  C6 on the state in which only Ana is registered: a login for an unknown email and a
  login for Ana with a wrong password give the same error, and each records one failure.
\<close>

theorem login_generic_invalid_credentials_witness:
  "fst (login example_bcrypt (JWTService example_env) 1000 ''unknown@x.com'' ''whatever''
          example_state) = Inl (Error ''Invalid email or password'')
   \<and> fst (login example_bcrypt (JWTService example_env) 1000 ''a@x.com'' ''wrong'' example_state)
       = Inl (Error ''Invalid email or password'')
   \<and> loginAttempts (snd (login example_bcrypt (JWTService example_env) 1000 ''unknown@x.com''
          ''whatever'' example_state)) ''unknown@x.com'' = Some \<lparr>count = 1, timestamp = 1000\<rparr>
   \<and> loginAttempts (snd (login example_bcrypt (JWTService example_env) 1000 ''a@x.com''
          ''wrong'' example_state)) ''a@x.com'' = Some \<lparr>count = 1, timestamp = 1000\<rparr>"
proof -
  have h1: "''unknown@x.com'' \<noteq> []" and h2: "''a@x.com'' \<noteq> []"
    and h3: "''whatever'' \<noteq> []" and h4: "''wrong'' \<noteq> []" by simp_all
  have h5: "\<not> fst (isLocked 1000 ''unknown@x.com'' (loginAttempts example_state))"
    by code_simp
  have h6: "\<not> fst (isLocked 1000 ''a@x.com'' (loginAttempts example_state))"
    by code_simp
  have h7: "map_of (users example_state) ''unknown@x.com'' = None" by code_simp
  have h9: "bcrypt_compare example_bcrypt ''wrong''
              (password \<lparr>id = ''k3j9x2m1q'', email = ''a@x.com'', role = USUARIO,
                 accessLevel = Level_READ, name = ''Ana'', createdAt = 0,
                 password = ''$2b$10$Str0ng!Pass123''\<rparr>) = Some False"
    by (simp add: example_bcrypt_def)
  have r1: "recordAttempt 1000 ''unknown@x.com'' (loginAttempts example_state) ''unknown@x.com''
              = Some \<lparr>count = 1, timestamp = 1000\<rparr>" by code_simp
  have r2: "recordAttempt 1000 ''a@x.com'' (loginAttempts example_state) ''a@x.com''
              = Some \<lparr>count = 1, timestamp = 1000\<rparr>" by code_simp
  from login_generic_invalid_credentials [OF h1 h2 h3 h4 h5 h6 h7 example_state_user h9,
      of "JWTService example_env"] r1 r2
  show ?thesis by simp
qed

subsection \<open>Returned values\<close>

lemma userWithoutPassword_clean: "\<not> props_mention ''password'' (userWithoutPassword u)"
  by (simp add: userWithoutPassword_def user_object_def)

lemma access_token_clean:
  "\<not> props_mention ''password'' (token_payload (generateAccessToken svc now u))"
  by (simp add: generateAccessToken_Signed token_payload_def)

lemma refresh_token_clean:
  "\<not> props_mention ''password''
       (token_payload (generateRefreshToken svc now (JObj [(''id'', JStr i), (''email'', JStr e)])))"
  by (simp add: generateRefreshToken_def jwt_sign_def token_payload_def)

lemma register_returns:
  "fst (register bc new_id now e p n r s) = Inr v \<Longrightarrow> \<exists>u. v = userWithoutPassword u"
  by (auto simp: register_def Let_def split: if_splits sum.splits)

lemma login_returns:
  "fst (login bc svc now e p s) = Inr v \<Longrightarrow>
   \<exists>u :: stored_user.
      v = \<lparr>accessToken = generateAccessToken svc now
                     \<lparr>id = id u, email = email u, role = role u, accessLevel = accessLevel u\<rparr>,
           refreshToken = generateRefreshToken svc now
                     (JObj [(''id'', JStr (id u)), (''email'', JStr (email u))]),
           user = [(''id'', JStr (id u)), (''email'', JStr (email u)),
                   (''role'', JStr (role_value (role u))),
                   (''accessLevel'', JNum (level_value (accessLevel u)))]\<rparr>"
  by (cases "isLocked now e (loginAttempts s)")
     (auto simp: login_def Let_def split: if_splits sum.splits option.splits)

lemma getUserById_returns:
  "getUserById userId s = Some v \<Longrightarrow> \<exists>u. v = userWithoutPassword u"
  by (auto simp: getUserById_def split: option.splits)

lemma updateUserAccessLevel_returns:
  "fst (updateUserAccessLevel userId l s) = Inr v \<Longrightarrow> \<exists>u. v = userWithoutPassword u"
  by (auto simp: updateUserAccessLevel_def split: option.splits)

lemma updateUserRole_returns:
  "fst (updateUserRole userId r s) = Inr v \<Longrightarrow> \<exists>u. v = userWithoutPassword u"
  by (auto simp: updateUserRole_def split: option.splits)

text \<open>
  C9. No value that \<open>register\<close>, \<open>login\<close>, \<open>refreshAccessToken\<close>, \<open>getUserById\<close>,
  \<open>updateUserAccessLevel\<close> or \<open>updateUserRole\<close> returns holds a property named
  \<^verbatim>\<open>password\<close> at any depth; for the tokens in a response this is said of the payload they
  carry.
\<close>

theorem no_password_in_returned_values:
  "(fst (register bc new_id now e p n r s) = Inr registered \<longrightarrow>
      \<not> props_mention ''password'' registered)
   \<and> (fst (login bc svc now e p s) = Inr logged \<longrightarrow>
      \<not> props_mention ''password'' (user logged)
      \<and> \<not> props_mention ''password'' (token_payload (accessToken logged))
      \<and> \<not> props_mention ''password'' (token_payload (refreshToken logged)))
   \<and> (refreshAccessToken svc now tok s = Inr refreshed \<longrightarrow>
      \<not> props_mention ''password'' (token_payload (accessToken refreshed)))
   \<and> (getUserById userId s = Some found \<longrightarrow> \<not> props_mention ''password'' found)
   \<and> (fst (updateUserAccessLevel userId level s) = Inr updated \<longrightarrow>
      \<not> props_mention ''password'' updated)
   \<and> (fst (updateUserRole userId r' s) = Inr updated' \<longrightarrow>
      \<not> props_mention ''password'' updated')"
proof -
  have 1: "fst (register bc new_id now e p n r s) = Inr registered \<longrightarrow>
      \<not> props_mention ''password'' registered"
    using register_returns userWithoutPassword_clean by blast
  have 2: "fst (login bc svc now e p s) = Inr logged \<longrightarrow>
      \<not> props_mention ''password'' (user logged)
      \<and> \<not> props_mention ''password'' (token_payload (accessToken logged))
      \<and> \<not> props_mention ''password'' (token_payload (refreshToken logged))"
  proof
    assume "fst (login bc svc now e p s) = Inr logged"
    from login_returns[OF this] show "\<not> props_mention ''password'' (user logged)
      \<and> \<not> props_mention ''password'' (token_payload (accessToken logged))
      \<and> \<not> props_mention ''password'' (token_payload (refreshToken logged))"
      using access_token_clean refresh_token_clean by force
  qed
  have 3: "refreshAccessToken svc now tok s = Inr refreshed \<longrightarrow>
      \<not> props_mention ''password'' (token_payload (accessToken refreshed))"
    by (auto simp: refreshAccessToken_def access_token_clean split: option.splits)
  have 4: "getUserById userId s = Some found \<longrightarrow> \<not> props_mention ''password'' found"
    using getUserById_returns userWithoutPassword_clean by blast
  have 5: "fst (updateUserAccessLevel userId level s) = Inr updated \<longrightarrow>
      \<not> props_mention ''password'' updated"
    using updateUserAccessLevel_returns userWithoutPassword_clean by blast
  have 6: "fst (updateUserRole userId r' s) = Inr updated' \<longrightarrow>
      \<not> props_mention ''password'' updated'"
    using updateUserRole_returns userWithoutPassword_clean by blast
  from 1 2 3 4 5 6 show ?thesis by blast
qed

text \<open>
  C9 on Ana: what her registration returns, what her login returns, and what the three
  profile operations return for her id. (\<open>refreshAccessToken\<close> returns no value on any
  input, see \<open>refreshAccessToken_never_returns\<close>.)
\<close>

theorem no_password_in_returned_values_witness:
  "fst (register example_bcrypt ''k3j9x2m1q'' 0 ''a@x.com'' ''Str0ng!Pass123'' ''Ana'' None
          \<lparr>users = [], loginAttempts = Map.empty\<rparr>)
     = Inr [(''id'', JStr ''k3j9x2m1q''), (''email'', JStr ''a@x.com''), (''name'', JStr ''Ana''),
            (''role'', JStr ''USUARIO''), (''accessLevel'', JNum 1), (''createdAt'', JNum 0)]
   \<and> \<not> props_mention ''password''
         [(''id'', JStr ''k3j9x2m1q''), (''email'', JStr ''a@x.com''), (''name'', JStr ''Ana''),
          (''role'', JStr ''USUARIO''), (''accessLevel'', JNum 1), (''createdAt'', JNum 0)]
   \<and> (\<exists>logged. fst (login example_bcrypt (JWTService example_env) 1000 ''a@x.com''
                      ''Str0ng!Pass123'' example_state) = Inr logged
        \<and> \<not> props_mention ''password'' (user logged)
        \<and> \<not> props_mention ''password'' (token_payload (accessToken logged))
        \<and> \<not> props_mention ''password'' (token_payload (refreshToken logged)))
   \<and> (\<exists>found. getUserById ''k3j9x2m1q'' example_state = Some found
        \<and> \<not> props_mention ''password'' found)
   \<and> (\<exists>updated. fst (updateUserAccessLevel ''k3j9x2m1q'' Level_WRITE example_state) = Inr updated
        \<and> \<not> props_mention ''password'' updated)
   \<and> (\<exists>updated. fst (updateUserRole ''k3j9x2m1q'' OPERADOR example_state) = Inr updated
        \<and> \<not> props_mention ''password'' updated)"
proof -
  have reg: "fst (register example_bcrypt ''k3j9x2m1q'' 0 ''a@x.com'' ''Str0ng!Pass123'' ''Ana'' None
          \<lparr>users = [], loginAttempts = Map.empty\<rparr>)
     = Inr [(''id'', JStr ''k3j9x2m1q''), (''email'', JStr ''a@x.com''), (''name'', JStr ''Ana''),
            (''role'', JStr ''USUARIO''), (''accessLevel'', JNum 1), (''createdAt'', JNum 0)]"
    by code_simp
  have log: "fst (login example_bcrypt (JWTService example_env) 1000 ''a@x.com''
                      ''Str0ng!Pass123'' example_state)
     = Inr \<lparr>accessToken = Signed [(''userId'', JStr ''k3j9x2m1q''), (''email'', JStr ''a@x.com''),
                                  (''role'', JStr ''USUARIO''), (''iat'', JNum 1),
                                  (''exp'', JNum 86401)] ''secret-key-change-me'',
            refreshToken = Signed [(''userId'', JObj [(''id'', JStr ''k3j9x2m1q''),
                                                      (''email'', JStr ''a@x.com'')]),
                                   (''type'', JStr ''refresh''), (''iat'', JNum 1),
                                   (''exp'', JNum 604801)] ''refresh-key-change-me'',
            user = [(''id'', JStr ''k3j9x2m1q''), (''email'', JStr ''a@x.com''),
                    (''role'', JStr ''USUARIO''), (''accessLevel'', JNum 1)]\<rparr>"
    by code_simp
  have get: "getUserById ''k3j9x2m1q'' example_state
     = Some [(''id'', JStr ''k3j9x2m1q''), (''email'', JStr ''a@x.com''), (''name'', JStr ''Ana''),
             (''role'', JStr ''USUARIO''), (''accessLevel'', JNum 1), (''createdAt'', JNum 0)]"
    by code_simp
  have lvl: "fst (updateUserAccessLevel ''k3j9x2m1q'' Level_WRITE example_state)
     = Inr [(''id'', JStr ''k3j9x2m1q''), (''email'', JStr ''a@x.com''), (''name'', JStr ''Ana''),
            (''role'', JStr ''USUARIO''), (''accessLevel'', JNum 2), (''createdAt'', JNum 0)]"
    by code_simp
  have rol: "fst (updateUserRole ''k3j9x2m1q'' OPERADOR example_state)
     = Inr [(''id'', JStr ''k3j9x2m1q''), (''email'', JStr ''a@x.com''), (''name'', JStr ''Ana''),
            (''role'', JStr ''OPERADOR''), (''accessLevel'', JNum 1), (''createdAt'', JNum 0)]"
    by code_simp
  from no_password_in_returned_values [of example_bcrypt "''k3j9x2m1q''" 0 "''a@x.com''"
      "''Str0ng!Pass123''" "''Ana''" None "\<lparr>users = [], loginAttempts = Map.empty\<rparr>"] reg
  have 1: "\<not> props_mention ''password''
         [(''id'', JStr ''k3j9x2m1q''), (''email'', JStr ''a@x.com''), (''name'', JStr ''Ana''),
          (''role'', JStr ''USUARIO''), (''accessLevel'', JNum 1), (''createdAt'', JNum 0)]"
    by blast
  from no_password_in_returned_values [of example_bcrypt _ 1000 "''a@x.com''"
      "''Str0ng!Pass123''" _ _ example_state _ "JWTService example_env" _ _ _
      "''k3j9x2m1q''" _ Level_WRITE _ OPERADOR] log get lvl rol
  have 2: "(\<exists>logged. fst (login example_bcrypt (JWTService example_env) 1000 ''a@x.com''
                      ''Str0ng!Pass123'' example_state) = Inr logged
        \<and> \<not> props_mention ''password'' (user logged)
        \<and> \<not> props_mention ''password'' (token_payload (accessToken logged))
        \<and> \<not> props_mention ''password'' (token_payload (refreshToken logged)))
   \<and> (\<exists>found. getUserById ''k3j9x2m1q'' example_state = Some found
        \<and> \<not> props_mention ''password'' found)
   \<and> (\<exists>updated. fst (updateUserAccessLevel ''k3j9x2m1q'' Level_WRITE example_state) = Inr updated
        \<and> \<not> props_mention ''password'' updated)
   \<and> (\<exists>updated. fst (updateUserRole ''k3j9x2m1q'' OPERADOR example_state) = Inr updated
        \<and> \<not> props_mention ''password'' updated)"
    by blast
  from reg 1 2 show ?thesis by blast
qed

end
